theory Spec2Isabelle
  imports Complex_Main "HOL-Library.Multiset"
begin

section \<open>The Go library functions the bot calls\<close>

text \<open>
  A Go \<open>string\<close> is a sequence of bytes; it is modelled as \<open>string\<close> (a list of
  8-bit \<open>char\<close>s), so \<open>length\<close> is Go's \<open>len\<close>, \<open>take n\<close> is \<open>s[:n]\<close> and
  \<open>drop n\<close> is \<open>s[n:]\<close> (for \<open>0 \<le> n \<le> len(s)\<close>).
  Go's \<open>int\<close> is taken as 64 bits wide; the only place where the width shows is the
  range check of \<open>strconv.Atoi\<close>.
\<close>

subsection \<open>strings.HasPrefix, strings.TrimPrefix, strings.Join\<close>

definition HasPrefix :: "string \<Rightarrow> string \<Rightarrow> bool" where
  "HasPrefix s pre = (length pre \<le> length s \<and> take (length pre) s = pre)"

definition TrimPrefix :: "string \<Rightarrow> string \<Rightarrow> string" where
  "TrimPrefix s pre = (if HasPrefix s pre then drop (length pre) s else s)"

fun Join :: "string list \<Rightarrow> string \<Rightarrow> string" where
  "Join [] sep = []"
| "Join [e] sep = e"
| "Join (e # es) sep = e @ sep @ Join es sep"

subsection \<open>UTF-8 decoding (unicode/utf8, and \<open>range\<close> over a string)\<close>

type_synonym rune = nat

definition RuneError :: rune where
  "RuneError = 0xFFFD"

definition locb :: nat where
  "locb = 0x80"

definition hicb :: nat where
  "hicb = 0xBF"

text \<open>
  The table \<open>first\<close> of unicode/utf8, read by its two parts: the length of the
  sequence a lead byte announces (1 for ASCII and for the bytes that start no
  sequence) and the range accepted for the second byte.
\<close>

definition seqSize :: "nat \<Rightarrow> nat" where
  "seqSize s0 =
     (if 0xC2 \<le> s0 \<and> s0 \<le> 0xDF then 2
      else if 0xE0 \<le> s0 \<and> s0 \<le> 0xEF then 3
      else if 0xF0 \<le> s0 \<and> s0 \<le> 0xF4 then 4
      else 1)"

definition acceptLo :: "nat \<Rightarrow> nat" where
  "acceptLo s0 = (if s0 = 0xE0 then 0xA0 else if s0 = 0xF0 then 0x90 else locb)"

definition acceptHi :: "nat \<Rightarrow> nat" where
  "acceptHi s0 = (if s0 = 0xED then 0x9F else if s0 = 0xF4 then 0x8F else hicb)"

text \<open>
  \<open>utf8.DecodeRuneInString\<close>: the first rune of the string and its width in bytes;
  \<open>(RuneError, 1)\<close> for a byte that starts no valid encoding, \<open>(RuneError, 0)\<close>
  for the empty string. The masks \<open>s0 & 0x1F\<close>, \<open>& 0x0F\<close>, \<open>& 0x07\<close>, \<open>& 0x3F\<close>
  are written as \<open>mod\<close>, the shifts as multiplications; the parts do not overlap,
  so the bitwise or is a sum.
\<close>

fun decodeRune :: "string \<Rightarrow> rune \<times> nat" where
  "decodeRune [] = (RuneError, 0)"
| "decodeRune (c0 # cs) =
     (let s0 = of_char c0 in
      if s0 < 0x80 then (s0, 1)
      else if seqSize s0 = 1 then (RuneError, 1)
      else if length (c0 # cs) < seqSize s0 then (RuneError, 1)
      else
        let s1 = of_char (cs ! 0) in
        if s1 < acceptLo s0 \<or> acceptHi s0 < s1 then (RuneError, 1)
        else if seqSize s0 \<le> 2 then ((s0 mod 32) * 64 + s1 mod 64, 2)
        else
          let s2 = of_char (cs ! 1) in
          if s2 < locb \<or> hicb < s2 then (RuneError, 1)
          else if seqSize s0 \<le> 3
            then ((s0 mod 16) * 4096 + (s1 mod 64) * 64 + s2 mod 64, 3)
          else
            let s3 = of_char (cs ! 2) in
            if s3 < locb \<or> hicb < s3 then (RuneError, 1)
            else ((s0 mod 8) * 262144 + (s1 mod 64) * 4096 + (s2 mod 64) * 64
                    + s3 mod 64, 4))"

text \<open>
  \<open>unicode.IsSpace\<close>: the Latin-1 switch, then the White_Space table.
\<close>

definition IsSpace :: "rune \<Rightarrow> bool" where
  "IsSpace r =
     (if r \<le> 0xFF
      then r = 9 \<or> r = 10 \<or> r = 11 \<or> r = 12 \<or> r = 13 \<or> r = 32 \<or> r = 0x85 \<or> r = 0xA0
      else r = 0x1680 \<or> (0x2000 \<le> r \<and> r \<le> 0x200A) \<or> r = 0x2028 \<or> r = 0x2029
           \<or> r = 0x202F \<or> r = 0x205F \<or> r = 0x3000)"

declare decodeRune.simps(2) [simp del]

lemma seqSize_pos: "1 \<le> seqSize s0"
  by (simp add: seqSize_def)


lemma decodeRune_width:
  "s \<noteq> [] \<Longrightarrow> 1 \<le> snd (decodeRune s) \<and> snd (decodeRune s) \<le> length s"
proof (cases s)
  case Nil
  assume "s \<noteq> []"
  with Nil show ?thesis by simp
next
  case (Cons c0 cs)
  have "1 \<le> seqSize (of_char c0)" by (rule seqSize_pos)
  then show ?thesis
    unfolding Cons decodeRune.simps(2) Let_def by (auto split: if_splits)
qed

lemma decodeRune_drop:
  "s \<noteq> [] \<Longrightarrow> (r, w) = decodeRune s \<Longrightarrow> length s - w < length s"
  using decodeRune_width[of s] by (cases "decodeRune s") auto

subsection \<open>strings.Fields\<close>

text \<open>
  \<open>strings.FieldsFunc\<close> walks the string rune by rune (\<open>for end, rune := range s\<close>)
  and keeps the start of the field it is in; \<open>cur\<close> holds the bytes of that field,
  and is empty exactly when the source's \<open>start\<close> is negative (a field opens at a
  rune that is not a separator, so an open field is never empty). The field still
  open at the end of the string is the last one.
\<close>

function fieldsLoop :: "(rune \<Rightarrow> bool) \<Rightarrow> string \<Rightarrow> string \<Rightarrow> string list" where
  "fieldsLoop f cur s =
     (if s = [] then (if cur = [] then [] else [cur])
      else
        let (r, w) = decodeRune s in
        if f r then (if cur = [] then fieldsLoop f [] (drop w s)
                     else cur # fieldsLoop f [] (drop w s))
        else fieldsLoop f (cur @ take w s) (drop w s))"
  by pat_completeness auto
termination fieldsLoop
  by (relation "measure (\<lambda>(f, cur, s). length s)") (auto intro: decodeRune_drop)

declare fieldsLoop.simps [simp del]

definition FieldsFunc :: "string \<Rightarrow> (rune \<Rightarrow> bool) \<Rightarrow> string list" where
  "FieldsFunc s f = fieldsLoop f [] s"

text \<open>
  \<open>strings.Fields\<close> splits around runs of white space as \<open>unicode.IsSpace\<close> defines
  it. Its fast path for strings of ASCII bytes only computes the same fields as
  \<open>FieldsFunc(s, unicode.IsSpace)\<close>, which it calls for every other string.
\<close>

definition Fields :: "string \<Rightarrow> string list" where
  "Fields s = FieldsFunc s IsSpace"

subsection \<open>utf8.ValidString\<close>



subsection \<open>strconv.Atoi\<close>

datatype num_error = NumError

definition isDigit :: "char \<Rightarrow> bool" where
  "isDigit c = (48 \<le> (of_char c :: nat) \<and> (of_char c :: nat) \<le> 57)"

definition digitsValue :: "string \<Rightarrow> int" where
  "digitsValue ds = foldl (\<lambda>n ch. n * 10 + (of_char ch - 48)) 0 ds"

text \<open>
  \<open>strconv.Atoi\<close> (base 10, the width of \<open>int\<close>): an optional sign, then at least
  one decimal digit and nothing else, the value within the range of \<open>int\<close>; the
  fast path for short strings and \<open>ParseInt(s, 10, 0)\<close> agree. Anything else is
  an error, a \<open>*strconv.NumError\<close>; its callers here only test \<open>err != nil\<close>, so
  the syntax error and the range error are one value.
\<close>

definition Atoi :: "string \<Rightarrow> num_error + int" where
  "Atoi s =
     (let signed = (s \<noteq> [] \<and> (s ! 0 = CHR ''-'' \<or> s ! 0 = CHR ''+''));
          ds = (if signed then drop 1 s else s)
      in if ds = [] \<or> \<not> list_all isDigit ds then Inl NumError
         else
           let n = (if s ! 0 = CHR ''-'' then - digitsValue ds else digitsValue ds)
           in if n < - (2 ^ 63) \<or> 2 ^ 63 - 1 < n then Inl NumError else Inr n)"

section \<open>The helpers \<open>min\<close> and \<open>limitString\<close>\<close>

definition minInt :: "int \<Rightarrow> int \<Rightarrow> int" where
  "minInt a b = (if a < b then a else b)"

datatype panic = SliceBoundsOutOfRange

text \<open>
  \<open>limitString\<close>: \<open>s[:n]\<close> panics for a negative \<open>n\<close>; \<open>n \<le> len(s)\<close> holds
  whenever the slice expression is reached.
\<close>

definition limitString :: "string \<Rightarrow> int \<Rightarrow> panic + string" where
  "limitString s n =
     (if int (length s) \<le> n then Inr s
      else if n < 0 then Inl SliceBoundsOutOfRange
      else Inr (take (nat n) s @ ''...''))"

section \<open>Data model\<close>

text \<open>
  Identifiers (\<open>int\<close>, \<open>int64\<close>) are integers that the program only stores and
  compares. \<open>Popularity\<close> is a \<open>float64\<close> that the program only compares with
  \<open><\<close>: \<open>encoding/json\<close> decodes a JSON number (never NaN or an infinity, and it
  rejects a number out of range), and on such values the comparison of floats is
  the order of the reals they denote, so the field is modelled by that real.
\<close>

record ConversationState =
  AwaitingEpisode :: bool
  TMDBID :: int
  Title :: string
  MediaType :: string

text \<open>One element of \<open>TMDBResponse.Results\<close>.\<close>

record result =
  ID :: int
  Title :: string
  Name :: string
  MediaType :: string
  ReleaseDate :: string
  FirstAirDate :: string
  Overview :: string
  PosterPath :: string
  Popularity :: real

record TMDBResponse =
  Results :: "result list"

text \<open>A row of the table \<open>watched\<close>, with the columns of its \<open>CREATE TABLE\<close>.\<close>

record watched_row =
  row_id :: nat
  title :: string
  media_type :: string
  tmdb_id :: int
  user_id :: int
  watched_at :: int
  current_episode :: int

text \<open>
  The state the handlers share: the map \<open>conversationStates\<close> and the database,
  which is the table \<open>watched\<close> in the order of its row ids and the counter behind
  \<open>AUTOINCREMENT\<close>.
\<close>

record world =
  conversationStates :: "int \<rightharpoonup> ConversationState"
  watched :: "watched_row list"
  watched_seq :: nat

text \<open>
  What the outside answers while one message is handled: the decoded body of each
  HTTP request (or the error of the request or of the decoding), whether the
  database refuses a statement or a query, and the clock.
\<close>

datatype fetch_error = NetworkError | DecodeError

datatype db_error = DbError | ErrNoRows

record env =
  search_multi :: "string \<Rightarrow> fetch_error + TMDBResponse"
  movie_popular :: "fetch_error + TMDBResponse"
  tv_popular :: "fetch_error + TMDBResponse"
  exec_fails :: bool
  query_fails :: bool
  now :: int

section \<open>What the bot sends\<close>

text \<open>
  The texts are fixed Russian sentences with the arguments of \<open>fmt.Sprintf\<close>
  filled in; each is a constructor that carries those arguments. \<open>Film\<close> and
  \<open>Serial\<close> are the two labels the source prints for a kind.
\<close>

datatype kind_label = Film | Serial

datatype list_line =
    ShowLine nat string int int
  | MovieLine nat string int

datatype reply =
    Welcome
  | UnknownCommand
  | AddUsage
  | NothingFound string
  | AskEpisode string
  | SaveError
  | Added string kind_label
  | BadEpisode
  | AddedShow string int
  | ListError
  | ListEmpty
  | Listing "list_line list"
  | SearchUsage
  | Entry int string kind_label string string
  | TopMoviesError
  | TopShowsError
  | TopEmpty
  | UpdateUsage
  | UpdateBadEpisode
  | UpdateNotFound
  | UpdateNotShow
  | UpdateError
  | Updated string int

datatype request = SearchMulti string | MoviePopular | TVPopular

text \<open>
  The effects of a handler, in the order it performs them: HTTP requests to the
  catalog and sends to the chat (\<open>sendMessage\<close>, \<open>sendPhoto\<close>; a send that fails
  is logged and changes nothing else).
\<close>

datatype effect =
    HttpGet request
  | SendMessage int reply
  | SendPhoto int string reply

section \<open>Metadata client\<close>

definition searchTMDB :: "env \<Rightarrow> string \<Rightarrow> fetch_error + TMDBResponse" where
  "searchTMDB e query = search_multi e query"

definition getTopMovies :: "env \<Rightarrow> fetch_error + TMDBResponse" where
  "getTopMovies e =
     (case movie_popular e of
        Inl err \<Rightarrow> Inl err
      | Inr response \<Rightarrow>
          Inr (response\<lparr>Results := map (\<lambda>r. r\<lparr>MediaType := ''movie''\<rparr>) (Results response)\<rparr>))"

definition getTopTVShows :: "env \<Rightarrow> fetch_error + TMDBResponse" where
  "getTopTVShows e =
     (case tv_popular e of
        Inl err \<Rightarrow> Inl err
      | Inr response \<Rightarrow>
          Inr (response\<lparr>Results := map (\<lambda>r. r\<lparr>MediaType := ''tv''\<rparr>) (Results response)\<rparr>))"

section \<open>sortResultsByPopularity\<close>

text \<open>
  The two nested loops, each a recursive function of its counter and of the slice
  it updates in place. For counters that are not negative,
  \<open>j < len(results)-i-1\<close> and \<open>i < len(results)-1\<close> hold over \<open>int\<close> exactly when
  they hold with the truncated subtraction of \<open>nat\<close>, and inside the inner loop
  \<open>j + 1 < len(results)\<close>, so no index is out of range.
\<close>

function sortInner :: "nat \<Rightarrow> nat \<Rightarrow> result list \<Rightarrow> result list" where
  "sortInner i j results =
     (if j < length results - i - 1
      then sortInner i (j + 1)
             (if Popularity (results ! j) < Popularity (results ! (j + 1))
              then results[j := results ! (j + 1), j + 1 := results ! j]
              else results)
      else results)"
  by pat_completeness auto
termination sortInner
  by (relation "measure (\<lambda>(i, j, results). length results - i - 1 - j)") auto

declare sortInner.simps [simp del]

lemma length_sortInner: "length (sortInner i j results) = length results"
proof (induction i j results rule: sortInner.induct)
  case (1 i j results)
  show ?case
    by (subst sortInner.simps) (use 1 in \<open>auto\<close>)
qed

function sortOuter :: "nat \<Rightarrow> result list \<Rightarrow> result list" where
  "sortOuter i results =
     (if i < length results - 1 then sortOuter (i + 1) (sortInner i 0 results)
      else results)"
  by pat_completeness auto
termination sortOuter
  by (relation "measure (\<lambda>(i, results). length results - 1 - i)")
     (auto simp: length_sortInner)

declare sortOuter.simps [simp del]

definition sortResultsByPopularity :: "result list \<Rightarrow> result list" where
  "sortResultsByPopularity results = sortOuter 0 results"

section \<open>Watch store\<close>

text \<open>
  The three statements the handlers of the claims run. A statement the database
  refuses returns an error and changes nothing. The \<open>SELECT\<close> of \<open>handleUpdate\<close>
  has no \<open>ORDER BY\<close>; \<open>QueryRow\<close> takes the first row of the scan, here the first
  in row-id order, and \<open>Scan\<close> reports \<open>ErrNoRows\<close> when there is none.
\<close>

definition dbInsert ::
  "env \<Rightarrow> world \<Rightarrow> string \<Rightarrow> string \<Rightarrow> int \<Rightarrow> int \<Rightarrow> int \<Rightarrow> db_error + world" where
  "dbInsert e w ttl kind tid uid episode =
     (if exec_fails e then Inl DbError
      else Inr (w\<lparr>watched := watched w @
                     [\<lparr>row_id = Suc (watched_seq w), title = ttl, media_type = kind,
                       tmdb_id = tid, user_id = uid, watched_at = now e,
                       current_episode = episode\<rparr>],
                  watched_seq := Suc (watched_seq w)\<rparr>))"

definition dbSelectByTitle ::
  "env \<Rightarrow> world \<Rightarrow> int \<Rightarrow> string \<Rightarrow> db_error + (int \<times> string)" where
  "dbSelectByTitle e w uid ttl =
     (if query_fails e then Inl DbError
      else case find (\<lambda>r. user_id r = uid \<and> title r = ttl) (watched w) of
             None \<Rightarrow> Inl ErrNoRows
           | Some r \<Rightarrow> Inr (tmdb_id r, media_type r))"

definition dbUpdateEpisode ::
  "env \<Rightarrow> world \<Rightarrow> int \<Rightarrow> int \<Rightarrow> int \<Rightarrow> db_error + world" where
  "dbUpdateEpisode e w episode uid tid =
     (if exec_fails e then Inl DbError
      else Inr (w\<lparr>watched :=
                    map (\<lambda>r. if user_id r = uid \<and> tmdb_id r = tid
                             then r\<lparr>current_episode := episode\<rparr> else r)
                        (watched w)\<rparr>))"

text \<open>
  The query of \<open>handleList\<close>: the rows of the user, latest first. The order among
  rows with the same timestamp is not fixed by the query; here it is the reverse
  of the insertion order.
\<close>

definition dbSelectByUser :: "env \<Rightarrow> world \<Rightarrow> int \<Rightarrow> db_error + watched_row list" where
  "dbSelectByUser e w uid =
     (if query_fails e then Inl DbError
      else Inr (rev (sort_key watched_at (filter (\<lambda>r. user_id r = uid) (watched w)))))"

section \<open>Handlers\<close>

definition posterURL :: "string \<Rightarrow> string" where
  "posterURL path = ''https://image.tmdb.org/t/p/w500'' @ path"

text \<open>
  The body of the loop that \<open>handleSearch\<close> and \<open>handleTop\<close> share word for word:
  one photo or one message for the result at index \<open>i\<close>. The bound of
  \<open>limitString\<close> is the constant 100, for which it cannot panic
  (\<open>limitString_100\<close> below); the branch for the panic is never taken.
\<close>

definition sendEntry :: "int \<Rightarrow> nat \<Rightarrow> result \<Rightarrow> effect" where
  "sendEntry chatID i r =
     (let ttl = (if MediaType r = ''tv'' then Name r else Title r);
          date = (if MediaType r = ''tv'' then FirstAirDate r else ReleaseDate r);
          mediaType = (if MediaType r = ''tv'' then Serial else Film);
          message = Entry (int i + 1) ttl mediaType date
                      (case limitString (Overview r) 100 of Inr ov \<Rightarrow> ov | Inl p \<Rightarrow> [])
      in if PosterPath r \<noteq> [] then SendPhoto chatID (posterURL (PosterPath r)) message
         else SendMessage chatID message)"

definition sendEntries :: "int \<Rightarrow> result list \<Rightarrow> effect list" where
  "sendEntries chatID rs = map (\<lambda>(i, r). sendEntry chatID i r) (enumerate 0 rs)"

definition handleAdd :: "env \<Rightarrow> world \<Rightarrow> int \<Rightarrow> string \<Rightarrow> world \<times> effect list" where
  "handleAdd e w chatID query =
     (if query = [] then (w, [SendMessage chatID AddUsage])
      else
        case searchTMDB e query of
          Inl err \<Rightarrow>
            (w, [HttpGet (SearchMulti query), SendMessage chatID (NothingFound query)])
        | Inr results \<Rightarrow>
            if length (Results results) = 0
            then (w, [HttpGet (SearchMulti query), SendMessage chatID (NothingFound query)])
            else
              let r = Results results ! 0;
                  ttl = (if MediaType r = ''tv'' then Name r else Title r);
                  mediaType = (if MediaType r = ''tv'' then Serial else Film)
              in
                if MediaType r = ''tv''
                then (w\<lparr>conversationStates := (conversationStates w)
                          (chatID \<mapsto> \<lparr>AwaitingEpisode = True, TMDBID = ID r,
                                      ConversationState.Title = ttl,
                                      ConversationState.MediaType = MediaType r\<rparr>)\<rparr>,
                      [HttpGet (SearchMulti query), SendMessage chatID (AskEpisode ttl)])
                else
                  case dbInsert e w ttl (MediaType r) (ID r) chatID 0 of
                    Inl err \<Rightarrow>
                      (w, [HttpGet (SearchMulti query), SendMessage chatID SaveError])
                  | Inr w' \<Rightarrow>
                      (w', [HttpGet (SearchMulti query),
                            if PosterPath r \<noteq> []
                            then SendPhoto chatID (posterURL (PosterPath r)) (Added ttl mediaType)
                            else SendMessage chatID (Added ttl mediaType)]))"

definition handleEpisodeInput ::
  "env \<Rightarrow> world \<Rightarrow> int \<Rightarrow> string \<Rightarrow> ConversationState \<Rightarrow> world \<times> effect list" where
  "handleEpisodeInput e w chatID text state =
     (case Atoi text of
        Inl err \<Rightarrow> (w, [SendMessage chatID BadEpisode])
      | Inr episode \<Rightarrow>
          if episode < 0 then (w, [SendMessage chatID BadEpisode])
          else
            case dbInsert e w (ConversationState.Title state)
                   (ConversationState.MediaType state) (TMDBID state) chatID episode of
              Inl err \<Rightarrow> (w, [SendMessage chatID SaveError])
            | Inr w' \<Rightarrow>
                let w'' = w'\<lparr>conversationStates := (conversationStates w')(chatID := None)\<rparr>;
                    ttl = ConversationState.Title state;
                    withPoster =
                      (case searchTMDB e ttl of
                         Inl err \<Rightarrow> None
                       | Inr results \<Rightarrow>
                           if length (Results results) > 0
                              \<and> ID (Results results ! 0) = TMDBID state
                              \<and> PosterPath (Results results ! 0) \<noteq> []
                           then Some (PosterPath (Results results ! 0)) else None)
                in (w'', [HttpGet (SearchMulti ttl),
                          case withPoster of
                            Some path \<Rightarrow> SendPhoto chatID (posterURL path) (AddedShow ttl episode)
                          | None \<Rightarrow> SendMessage chatID (AddedShow ttl episode)]))"

definition listLine :: "nat \<Rightarrow> watched_row \<Rightarrow> list_line" where
  "listLine n r =
     (if media_type r = ''tv''
      then ShowLine n (title r) (current_episode r) (watched_at r)
      else MovieLine n (title r) (watched_at r))"

definition handleList :: "env \<Rightarrow> world \<Rightarrow> int \<Rightarrow> world \<times> effect list" where
  "handleList e w chatID =
     (case dbSelectByUser e w chatID of
        Inl err \<Rightarrow> (w, [SendMessage chatID ListError])
      | Inr rows \<Rightarrow>
          if length rows = 0 then (w, [SendMessage chatID ListEmpty])
          else (w, [SendMessage chatID
                      (Listing (map (\<lambda>(i, r). listLine (i + 1) r) (enumerate 0 rows)))]))"

definition handleSearch :: "env \<Rightarrow> world \<Rightarrow> int \<Rightarrow> string \<Rightarrow> world \<times> effect list" where
  "handleSearch e w chatID query =
     (if query = [] then (w, [SendMessage chatID SearchUsage])
      else
        case searchTMDB e query of
          Inl err \<Rightarrow>
            (w, [HttpGet (SearchMulti query), SendMessage chatID (NothingFound query)])
        | Inr results \<Rightarrow>
            if length (Results results) = 0
            then (w, [HttpGet (SearchMulti query), SendMessage chatID (NothingFound query)])
            else (w, HttpGet (SearchMulti query) #
                     sendEntries chatID
                       (take (nat (minInt 5 (int (length (Results results)))))
                          (Results results))))"

definition handleTop :: "env \<Rightarrow> world \<Rightarrow> int \<Rightarrow> world \<times> effect list" where
  "handleTop e w chatID =
     (case getTopMovies e of
        Inl err \<Rightarrow> (w, [HttpGet MoviePopular, SendMessage chatID TopMoviesError])
      | Inr movies \<Rightarrow>
          case getTopTVShows e of
            Inl err \<Rightarrow>
              (w, [HttpGet MoviePopular, HttpGet TVPopular, SendMessage chatID TopShowsError])
          | Inr shows \<Rightarrow>
              let allResults = Results movies @ Results shows in
              if length allResults = 0
              then (w, [HttpGet MoviePopular, HttpGet TVPopular, SendMessage chatID TopEmpty])
              else
                let allResults' = sortResultsByPopularity allResults in
                (w, [HttpGet MoviePopular, HttpGet TVPopular] @
                    sendEntries chatID
                      (take (nat (minInt 20 (int (length allResults')))) allResults')))"

text \<open>
  \<open>handleUpdate\<close> in its two parts: the arguments it reads from the query (the
  statements up to \<open>title := strings.Join(parts[:len(parts)-1], " ")\<close>, each early
  return being the reply it sends), and the lookup and update that follow.
\<close>

definition updateArgs :: "string \<Rightarrow> reply + string \<times> int" where
  "updateArgs query =
     (if query = [] then Inl UpdateUsage
      else
        let parts = Fields query in
        if length parts < 2 then Inl UpdateUsage
        else
          case Atoi (parts ! (length parts - 1)) of
            Inl err \<Rightarrow> Inl UpdateBadEpisode
          | Inr episode \<Rightarrow>
              if episode < 0 then Inl UpdateBadEpisode
              else Inr (Join (take (length parts - 1) parts) '' '', episode))"

definition handleUpdate :: "env \<Rightarrow> world \<Rightarrow> int \<Rightarrow> string \<Rightarrow> world \<times> effect list" where
  "handleUpdate e w chatID query =
     (case updateArgs query of
        Inl r \<Rightarrow> (w, [SendMessage chatID r])
      | Inr (ttl, episode) \<Rightarrow>
          case dbSelectByTitle e w chatID ttl of
            Inl err \<Rightarrow> (w, [SendMessage chatID UpdateNotFound])
          | Inr (tmdbID, mediaType) \<Rightarrow>
              if mediaType \<noteq> ''tv'' then (w, [SendMessage chatID UpdateNotShow])
              else
                case dbUpdateEpisode e w episode chatID tmdbID of
                  Inl err \<Rightarrow> (w, [SendMessage chatID UpdateError])
                | Inr w' \<Rightarrow> (w', [SendMessage chatID (Updated ttl episode)]))"

section \<open>Dispatcher\<close>

record Message =
  ChatID :: int
  Text :: string

text \<open>The \<open>switch\<close> of \<open>main\<close>: the first case that holds is taken.\<close>

definition commandSwitch :: "env \<Rightarrow> world \<Rightarrow> int \<Rightarrow> string \<Rightarrow> world \<times> effect list" where
  "commandSwitch e w chatID text =
     (if text = ''/start'' then (w, [SendMessage chatID Welcome])
      else if HasPrefix text ''/add''
        then handleAdd e w chatID (TrimPrefix text ''/add '')
      else if text = ''/list'' then handleList e w chatID
      else if HasPrefix text ''/search''
        then handleSearch e w chatID (TrimPrefix text ''/search '')
      else if text = ''/top'' then handleTop e w chatID
      else if HasPrefix text ''/update''
        then handleUpdate e w chatID (TrimPrefix text ''/update '')
      else (w, [SendMessage chatID UnknownCommand]))"

text \<open>
  The body of the loop over the updates: an update without a message is skipped;
  a pending state with the flag set sends the text to \<open>handleEpisodeInput\<close> and
  ends the iteration (\<open>continue\<close>); everything else reaches the \<open>switch\<close>.
\<close>

definition handleUpdateEvent :: "env \<Rightarrow> world \<Rightarrow> Message option \<Rightarrow> world \<times> effect list" where
  "handleUpdateEvent e w update =
     (case update of
        None \<Rightarrow> (w, [])
      | Some m \<Rightarrow>
          (case conversationStates w (ChatID m) of
             Some state \<Rightarrow>
               if AwaitingEpisode state
               then handleEpisodeInput e w (ChatID m) (Text m) state
               else commandSwitch e w (ChatID m) (Text m)
           | None \<Rightarrow> commandSwitch e w (ChatID m) (Text m)))"

text \<open>
  The loop itself, over the updates that arrive, each with what the outside
  answers while it is handled; the effects are collected in order.
\<close>

fun mainLoop :: "world \<Rightarrow> (env \<times> Message option) list \<Rightarrow> world \<times> effect list" where
  "mainLoop w [] = (w, [])"
| "mainLoop w ((e, update) # rest) =
     (let (w', out) = handleUpdateEvent e w update;
          (w'', out') = mainLoop w' rest
      in (w'', out @ out'))"

text \<open>The state of the process when the loop starts, over a given table.\<close>

definition initialWorld :: "watched_row list \<Rightarrow> nat \<Rightarrow> world" where
  "initialWorld rows n = \<lparr>conversationStates = Map.empty, watched = rows, watched_seq = n\<rparr>"

section \<open>Notions used in the statements\<close>




text \<open>
  An answer that \<open>handleEpisodeInput\<close> refuses: \<open>strconv.Atoi\<close> fails on it, or
  the number is negative.
\<close>

definition invalidEpisode :: "string \<Rightarrow> bool" where
  "invalidEpisode text = (case Atoi text of Inl err \<Rightarrow> True | Inr episode \<Rightarrow> episode < 0)"

text \<open>The update that carries the text \<open>text\<close> from the chat \<open>chatID\<close>.\<close>

definition fromChat :: "int \<Rightarrow> string \<Rightarrow> Message option" where
  "fromChat chatID text = Some \<lparr>ChatID = chatID, Text = text\<rparr>"

text \<open>The sender is in the state AWAITING_EPISODE.\<close>

definition awaiting :: "world \<Rightarrow> int \<Rightarrow> bool" where
  "awaiting w chatID =
     (case conversationStates w chatID of None \<Rightarrow> False | Some state \<Rightarrow> AwaitingEpisode state)"





section \<open>Example inputs\<close>

definition exResult :: "int \<Rightarrow> string \<Rightarrow> string \<Rightarrow> real \<Rightarrow> result" where
  "exResult i t kind p =
     \<lparr>ID = i, Title = t, Name = t, MediaType = kind, ReleaseDate = ''2010'',
      FirstAirDate = ''2008'', Overview = ''plot'', PosterPath = [], Popularity = p\<rparr>"

definition exMovies :: TMDBResponse where
  "exMovies = \<lparr>Results = [exResult 1 ''Inception'' [] 3, exResult 2 ''Heat'' ''tv'' 8]\<rparr>"

definition exShows :: TMDBResponse where
  "exShows = \<lparr>Results = [exResult 3 ''Breaking Bad'' ''movie'' 5]\<rparr>"

definition exSearch :: "string \<Rightarrow> fetch_error + TMDBResponse" where
  "exSearch q =
     (if q = ''Inception'' then Inr \<lparr>Results = [exResult 27205 ''Inception'' ''movie'' 9]\<rparr>
      else if q = ''Breaking Bad''
        then Inr \<lparr>Results = [exResult 1396 ''Breaking Bad'' ''tv'' 7]\<rparr>
      else Inl NetworkError)"

definition exEnv :: env where
  "exEnv =
     \<lparr>search_multi = exSearch, movie_popular = Inr exMovies,
      tv_popular = Inr exShows, exec_fails = False, query_fails = False, now = 0\<rparr>"

definition exFailing :: env where
  "exFailing = exEnv\<lparr>exec_fails := True\<rparr>"

definition exState :: ConversationState where
  "exState = \<lparr>AwaitingEpisode = True, TMDBID = 1396,
              ConversationState.Title = ''Breaking Bad'',
              ConversationState.MediaType = ''tv''\<rparr>"

definition exAwaiting :: world where
  "exAwaiting = \<lparr>conversationStates = [7 \<mapsto> exState], watched = [], watched_seq = 0\<rparr>"

definition exWatched :: world where
  "exWatched =
     initialWorld
       [\<lparr>row_id = 1, title = ''Breaking Bad'', media_type = ''tv'', tmdb_id = 1396,
         user_id = 7, watched_at = 0, current_episode = 5\<rparr>] 1"



section \<open>Properties\<close>

subsection \<open>Where the dispatcher sends a text\<close>

lemma awaiting_dispatch:
  "conversationStates w chatID = Some state \<Longrightarrow> AwaitingEpisode state \<Longrightarrow>
   handleUpdateEvent e w (fromChat chatID text) = handleEpisodeInput e w chatID text state"
  by (simp add: handleUpdateEvent_def fromChat_def)

lemma not_awaiting_dispatch:
  "\<not> awaiting w chatID \<Longrightarrow>
   handleUpdateEvent e w (fromChat chatID text) = commandSwitch e w chatID text"
  by (auto simp: awaiting_def handleUpdateEvent_def fromChat_def split: option.splits)

lemma awaiting_dispatch':
  "awaiting w chatID \<Longrightarrow>
   \<exists>state. handleUpdateEvent e w (fromChat chatID text) =
              handleEpisodeInput e w chatID text state"
  by (auto simp: awaiting_def handleUpdateEvent_def fromChat_def split: option.splits)

lemma add_dispatch:
  "\<not> awaiting w chatID \<Longrightarrow>
   handleUpdateEvent e w (fromChat chatID (''/add '' @ query)) = handleAdd e w chatID query"
  by (simp add: not_awaiting_dispatch commandSwitch_def HasPrefix_def TrimPrefix_def)

lemma update_dispatch:
  "\<not> awaiting w chatID \<Longrightarrow>
   handleUpdateEvent e w (fromChat chatID (''/update '' @ query)) =
     handleUpdate e w chatID query"
  by (simp add: not_awaiting_dispatch commandSwitch_def HasPrefix_def TrimPrefix_def)


subsection \<open>The bubble sort sorts\<close>















subsection \<open>Ranking of \<open>/top\<close>\<close>




subsection \<open>Kind of the popular listings\<close>

text \<open>
  Claim C7. When the popular-movies listing is fetched and decoded, every result
  that \<open>getTopMovies\<close> returns has kind \<open>movie\<close>, and when the popular-shows
  listing is, every result that \<open>getTopTVShows\<close> returns has kind \<open>tv\<close>, whatever
  kind the decoded response carried: the returned list is the decoded one with
  the kind of each result overwritten.
\<close>

theorem popular_listings_stamped:
  "(movie_popular e = Inr response \<longrightarrow>
      (\<exists>out. getTopMovies e = Inr out
         \<and> Results out = map (\<lambda>r. r\<lparr>MediaType := ''movie''\<rparr>) (Results response)
         \<and> (\<forall>r\<in>set (Results out). MediaType r = ''movie'')))
   \<and> (tv_popular e = Inr response' \<longrightarrow>
      (\<exists>out. getTopTVShows e = Inr out
         \<and> Results out = map (\<lambda>r. r\<lparr>MediaType := ''tv''\<rparr>) (Results response')
         \<and> (\<forall>r\<in>set (Results out). MediaType r = ''tv'')))"
  by (auto simp: getTopMovies_def getTopTVShows_def)

theorem popular_listings_stamped_witness:
  "movie_popular exEnv = Inr exMovies \<and> tv_popular exEnv = Inr exShows
   \<and> map MediaType (Results exMovies) = [[], ''tv'']
   \<and> map MediaType (Results exShows) = [''movie'']
   \<and> (\<exists>out. getTopMovies exEnv = Inr out
          \<and> map MediaType (Results out) = [''movie'', ''movie''])
   \<and> (\<exists>out. getTopTVShows exEnv = Inr out \<and> map MediaType (Results out) = [''tv''])"
proof -
  have h1: "movie_popular exEnv = Inr exMovies" and h2: "tv_popular exEnv = Inr exShows"
    by (simp_all add: exEnv_def)
  show ?thesis
    using popular_listings_stamped[of exEnv exMovies exShows] h1 h2
    by (auto simp: exMovies_def exShows_def exResult_def)
qed

subsection \<open>The dispatcher while an episode number is awaited\<close>

lemma handleEpisodeInput_invalid:
  "invalidEpisode text \<Longrightarrow>
   handleEpisodeInput e w chatID text state = (w, [SendMessage chatID BadEpisode])"
  by (auto simp: invalidEpisode_def handleEpisodeInput_def split: sum.splits)

lemma Atoi_slash: "Atoi (CHR ''/'' # rest) = Inl NumError"
  by (simp add: Atoi_def isDigit_def)

lemma HasPrefix_slash: "HasPrefix text ''/'' \<Longrightarrow> \<exists>rest. text = CHR ''/'' # rest"
  by (cases "text") (auto simp: HasPrefix_def)

text \<open>
  Claim C5. When the sender has a pending state whose awaiting-episode flag is set,
  the dispatcher hands the text to \<open>handleEpisodeInput\<close> and the command switch is
  not reached; a text that begins with \<open>/\<close>, such as \<open>/start\<close> or \<open>/list\<close>, is
  read as an episode answer (and refused as one: it is no number).
\<close>

theorem awaiting_bypasses_commands:
  assumes "conversationStates w chatID = Some state" and "AwaitingEpisode state"
  shows "handleUpdateEvent e w (fromChat chatID text) =
           handleEpisodeInput e w chatID text state
         \<and> (HasPrefix text ''/'' \<longrightarrow>
              handleUpdateEvent e w (fromChat chatID text) =
                (w, [SendMessage chatID BadEpisode]))"
proof -
  have "invalidEpisode text" if "HasPrefix text ''/''"
    using HasPrefix_slash[OF that] by (auto simp: invalidEpisode_def Atoi_slash)
  then show ?thesis
    using awaiting_dispatch[OF assms] by (simp add: handleEpisodeInput_invalid)
qed

theorem awaiting_bypasses_commands_witness:
  "conversationStates exAwaiting 7 = Some exState \<and> AwaitingEpisode exState
   \<and> HasPrefix ''/start'' ''/''
   \<and> handleUpdateEvent exEnv exAwaiting (fromChat 7 ''/start'') =
       (exAwaiting, [SendMessage 7 BadEpisode])
   \<and> commandSwitch exEnv exAwaiting 7 ''/start'' = (exAwaiting, [SendMessage 7 Welcome])
   \<and> handleUpdateEvent exEnv exAwaiting (fromChat 7 ''/list'') =
       (exAwaiting, [SendMessage 7 BadEpisode])"
proof -
  have h1: "conversationStates exAwaiting 7 = Some exState"
    by (simp add: exAwaiting_def)
  have h2: "AwaitingEpisode exState" by (simp add: exState_def)
  have p: "HasPrefix ''/start'' ''/''" "HasPrefix ''/list'' ''/''"
    by (simp_all add: HasPrefix_def)
  have "handleUpdateEvent exEnv exAwaiting (fromChat 7 ''/start'') =
          (exAwaiting, [SendMessage 7 BadEpisode])"
    using awaiting_bypasses_commands[OF h1 h2, of exEnv "''/start''"] p by blast
  moreover have "handleUpdateEvent exEnv exAwaiting (fromChat 7 ''/list'') =
          (exAwaiting, [SendMessage 7 BadEpisode])"
    using awaiting_bypasses_commands[OF h1 h2, of exEnv "''/list''"] p by blast
  ultimately show ?thesis
    using h1 h2 p by (simp add: commandSwitch_def)
qed

lemma mainLoop_invalid:
  assumes "conversationStates w chatID = Some state" and "AwaitingEpisode state"
  shows "\<forall>(e, t)\<in>set inputs. invalidEpisode t \<Longrightarrow>
     mainLoop w (map (\<lambda>(e, t). (e, fromChat chatID t)) inputs) =
       (w, replicate (length inputs) (SendMessage chatID BadEpisode))"
proof (induction inputs)
  case Nil
  show ?case by simp
next
  case (Cons a inputs)
  obtain e t where a: "a = (e, t)" by (cases a)
  have "invalidEpisode t" using Cons.prems a by simp
  then have step: "handleUpdateEvent e w (fromChat chatID t) = (w, [SendMessage chatID BadEpisode])"
    using awaiting_dispatch[OF assms] by (simp add: handleEpisodeInput_invalid)
  show ?case
    using Cons step by (simp add: a)
qed

text \<open>
  Claim C3. For a user in the awaiting state, an answer that is not a valid episode
  number (the parse fails or the number is negative) leaves the whole state as it
  was, the pending state and the table included, and sends the error prompt; the
  same holds for any number of such answers in a row.
\<close>

theorem invalid_episode_keeps_state:
  assumes "conversationStates w chatID = Some state" and "AwaitingEpisode state"
    and "\<forall>(e, t)\<in>set inputs. invalidEpisode t"
  shows "mainLoop w (map (\<lambda>(e, t). (e, fromChat chatID t)) inputs) =
           (w, replicate (length inputs) (SendMessage chatID BadEpisode))
         \<and> (\<forall>(e, t)\<in>set inputs.
               handleUpdateEvent e w (fromChat chatID t) =
                 (w, [SendMessage chatID BadEpisode]))"
proof -
  have "handleUpdateEvent e w (fromChat chatID t) = (w, [SendMessage chatID BadEpisode])"
    if "(e, t) \<in> set inputs" for e t
    using that assms(3) awaiting_dispatch[OF assms(1,2)]
    by (auto simp: handleEpisodeInput_invalid)
  then show ?thesis
    using mainLoop_invalid[OF assms] by auto
qed

theorem invalid_episode_keeps_state_witness:
  "conversationStates exAwaiting 7 = Some exState \<and> AwaitingEpisode exState
   \<and> invalidEpisode ''abc'' \<and> invalidEpisode ''-1'' \<and> invalidEpisode ''''
   \<and> mainLoop exAwaiting
        [(exEnv, fromChat 7 ''abc''), (exEnv, fromChat 7 ''-1''), (exEnv, fromChat 7 '''')] =
       (exAwaiting, [SendMessage 7 BadEpisode, SendMessage 7 BadEpisode, SendMessage 7 BadEpisode])"
proof -
  have h1: "conversationStates exAwaiting 7 = Some exState"
    by (simp add: exAwaiting_def)
  have h2: "AwaitingEpisode exState" by (simp add: exState_def)
  have inv: "invalidEpisode ''abc''" "invalidEpisode ''-1''" "invalidEpisode ''''"
    by (simp_all add: invalidEpisode_def Atoi_def isDigit_def digitsValue_def)
  then have h3: "\<forall>(e, t)\<in>set [(exEnv, ''abc''), (exEnv, ''-1''), (exEnv, '''')]. invalidEpisode t"
    by simp
  show ?thesis
    using invalid_episode_keeps_state[OF h1 h2 h3] h1 h2 inv
    by (simp add: numeral_3_eq_3)
qed

subsection \<open>A failed insert keeps the pending state\<close>

lemma not_invalidEpisode:
  "(\<not> invalidEpisode text) = (\<exists>episode. Atoi text = Inr episode \<and> 0 \<le> episode)"
  by (auto simp: invalidEpisode_def split: sum.splits)

lemma handleEpisodeInput_valid:
  assumes "Atoi text = Inr episode" and "0 \<le> episode"
  shows "exec_fails e \<Longrightarrow>
           handleEpisodeInput e w chatID text state = (w, [SendMessage chatID SaveError])"
    and "\<not> exec_fails e \<Longrightarrow>
           fst (handleEpisodeInput e w chatID text state) =
             w\<lparr>watched := watched w @
                   [\<lparr>row_id = Suc (watched_seq w), title = ConversationState.Title state,
                     media_type = ConversationState.MediaType state,
                     tmdb_id = TMDBID state, user_id = chatID, watched_at = now e,
                     current_episode = episode\<rparr>],
               watched_seq := Suc (watched_seq w),
               conversationStates := (conversationStates w)(chatID := None)\<rparr>"
  using assms by (simp_all add: handleEpisodeInput_def dbInsert_def Let_def)

text \<open>
  Claim C10. While an episode number is awaited, a valid answer whose insert the
  store refuses leaves the state as it was: the save-error message is sent, the
  pending state stays, and the next text of the sender goes to
  \<open>handleEpisodeInput\<close> again. The pending state is removed exactly when the
  answer is valid and the insert succeeds, which is exactly when a row is added
  to the table.
\<close>

theorem failed_insert_keeps_pending:
  assumes "conversationStates w chatID = Some state" and "AwaitingEpisode state"
  shows "(\<not> invalidEpisode text \<and> exec_fails e \<longrightarrow>
            handleUpdateEvent e w (fromChat chatID text) = (w, [SendMessage chatID SaveError])
            \<and> handleUpdateEvent e' (fst (handleUpdateEvent e w (fromChat chatID text)))
                 (fromChat chatID text') = handleEpisodeInput e' w chatID text' state)
         \<and> ((conversationStates (fst (handleUpdateEvent e w (fromChat chatID text))) chatID
               = None) = (\<not> invalidEpisode text \<and> \<not> exec_fails e))
         \<and> ((watched (fst (handleUpdateEvent e w (fromChat chatID text))) \<noteq> watched w)
               = (\<not> invalidEpisode text \<and> \<not> exec_fails e))
         \<and> (\<forall>episode. Atoi text = Inr episode \<and> 0 \<le> episode \<and> \<not> exec_fails e \<longrightarrow>
               watched (fst (handleUpdateEvent e w (fromChat chatID text))) =
                 watched w @
                   [\<lparr>row_id = Suc (watched_seq w), title = ConversationState.Title state,
                     media_type = ConversationState.MediaType state,
                     tmdb_id = TMDBID state, user_id = chatID, watched_at = now e,
                     current_episode = episode\<rparr>])"
proof -
  have d: "handleUpdateEvent e w (fromChat chatID text) =
           handleEpisodeInput e w chatID text state"
    by (rule awaiting_dispatch[OF assms])
  show ?thesis
  proof (cases "invalidEpisode text")
    case True
    then have "\<And>episode. Atoi text = Inr episode \<Longrightarrow> \<not> 0 \<le> episode"
      by (auto simp: invalidEpisode_def)
    then show ?thesis
      using True assms(1) by (auto simp: d handleEpisodeInput_invalid)
  next
    case False
    then obtain episode where ep: "Atoi text = Inr episode" "0 \<le> episode"
      by (auto simp: not_invalidEpisode)
    show ?thesis
    proof (cases "exec_fails e")
      case True
      then show ?thesis
        using False assms(1) handleEpisodeInput_valid(1)[OF ep True]
          awaiting_dispatch[OF assms]
        by (simp add: d)
    next
      case nf: False
      then show ?thesis
        using False ep handleEpisodeInput_valid(2)[OF ep nf, of w chatID state]
        by (simp add: d)
    qed
  qed
qed

theorem failed_insert_keeps_pending_witness:
  "conversationStates exAwaiting 7 = Some exState \<and> AwaitingEpisode exState
   \<and> \<not> invalidEpisode ''5'' \<and> exec_fails exFailing \<and> \<not> exec_fails exEnv
   \<and> handleUpdateEvent exFailing exAwaiting (fromChat 7 ''5'') =
        (exAwaiting, [SendMessage 7 SaveError])
   \<and> conversationStates (fst (handleUpdateEvent exEnv exAwaiting (fromChat 7 ''5''))) 7 = None
   \<and> watched (fst (handleUpdateEvent exEnv exAwaiting (fromChat 7 ''5''))) =
        [\<lparr>row_id = 1, title = ''Breaking Bad'', media_type = ''tv'', tmdb_id = 1396,
          user_id = 7, watched_at = 0, current_episode = 5\<rparr>]"
proof -
  have h1: "conversationStates exAwaiting 7 = Some exState"
    by (simp add: exAwaiting_def)
  have h2: "AwaitingEpisode exState" by (simp add: exState_def)
  have a: "Atoi ''5'' = Inr 5"
    by (simp add: Atoi_def isDigit_def digitsValue_def)
  then have v: "\<not> invalidEpisode ''5''" by (simp add: invalidEpisode_def)
  have f: "exec_fails exFailing" "\<not> exec_fails exEnv"
    by (simp_all add: exFailing_def exEnv_def)
  show ?thesis
    using failed_insert_keeps_pending[OF h1 h2, of "''5''" exFailing]
      failed_insert_keeps_pending[OF h1 h2, of "''5''" exEnv] h1 h2 a v f
    by (simp add: exAwaiting_def exState_def exEnv_def)
qed

subsection \<open>The usage prompt of \<open>/add\<close>\<close>

lemma sendEntry_no_usage: "sendEntry chatID i r \<noteq> SendMessage c AddUsage"
  by (simp add: sendEntry_def Let_def)

lemma sendEntries_no_usage: "SendMessage c AddUsage \<notin> set (sendEntries chatID rs)"
  by (auto simp: sendEntries_def sendEntry_no_usage[symmetric])

lemma handleEpisodeInput_no_usage:
  "SendMessage c AddUsage \<notin> set (snd (handleEpisodeInput e w chatID text state))"
  by (auto simp: handleEpisodeInput_def Let_def split: sum.splits option.splits)

lemma handleList_no_usage: "SendMessage c AddUsage \<notin> set (snd (handleList e w chatID))"
  by (auto simp: handleList_def split: sum.splits)

lemma handleSearch_no_usage:
  "SendMessage c AddUsage \<notin> set (snd (handleSearch e w chatID q))"
  by (auto simp: handleSearch_def sendEntries_no_usage split: sum.splits)

lemma handleTop_no_usage: "SendMessage c AddUsage \<notin> set (snd (handleTop e w chatID))"
  by (auto simp: handleTop_def Let_def sendEntries_no_usage split: sum.splits)

lemma handleUpdate_no_usage:
  "SendMessage c AddUsage \<notin> set (snd (handleUpdate e w chatID q))"
  by (auto simp: handleUpdate_def updateArgs_def Let_def split: sum.splits if_splits)

lemma handleAdd_usage:
  "(SendMessage chatID AddUsage \<in> set (snd (handleAdd e w chatID q))) = (q = [])"
  by (auto simp: handleAdd_def Let_def split: sum.splits)

lemma handleAdd_searches:
  "q \<noteq> [] \<Longrightarrow> \<exists>rest. snd (handleAdd e w chatID q) = HttpGet (SearchMulti q) # rest"
  by (auto simp: handleAdd_def Let_def split: sum.splits)

lemma add_query_empty:
  "(HasPrefix text ''/add'' \<and> TrimPrefix text ''/add '' = []) = (text = ''/add '')"
proof
  assume a: "HasPrefix text ''/add'' \<and> TrimPrefix text ''/add '' = []"
  then have ne: "text \<noteq> []" by (auto simp: HasPrefix_def)
  then have p: "HasPrefix text ''/add ''"
    using a by (auto simp: TrimPrefix_def split: if_splits)
  then have "drop 5 text = []" using a by (simp add: TrimPrefix_def)
  then have "length text \<le> 5" by simp
  then show "text = ''/add ''"
    using p by (simp add: HasPrefix_def)
next
  assume "text = ''/add ''"
  then show "HasPrefix text ''/add'' \<and> TrimPrefix text ''/add '' = []"
    by (simp add: HasPrefix_def TrimPrefix_def)
qed

lemma commandSwitch_usage:
  "(SendMessage chatID AddUsage \<in> set (snd (commandSwitch e w chatID text))) =
   (text = ''/add '')"
proof (cases "text = ''/start''")
  case True
  then show ?thesis by (simp add: commandSwitch_def)
next
  case ns: False
  show ?thesis
  proof (cases "HasPrefix text ''/add''")
    case True
    then have "commandSwitch e w chatID text = handleAdd e w chatID (TrimPrefix text ''/add '')"
      using ns by (simp add: commandSwitch_def)
    then show ?thesis
      using True add_query_empty[of "text"] by (simp add: handleAdd_usage)
  next
    case False
    then have "text \<noteq> ''/add ''" by (auto simp: HasPrefix_def)
    then show ?thesis
      using False ns
      by (simp add: commandSwitch_def handleList_no_usage handleSearch_no_usage
            handleTop_no_usage handleUpdate_no_usage)
  qed
qed

text \<open>
  Claim C8. For the message \<open>/add\<close> with nothing after it, the prefix test of the
  dispatcher holds and \<open>TrimPrefix\<close> with \<open>/add\<close> and a space removes nothing, so
  \<open>handleAdd\<close> receives the query \<open>/add\<close>, asks the catalog for that text and does
  not send the usage prompt. The usage prompt is sent only for the message that
  is \<open>/add\<close> followed by one space and nothing else (the query is then empty),
  from a sender who is not awaiting an episode number.
\<close>

theorem bare_add_is_searched:
  "HasPrefix ''/add'' ''/add'' \<and> TrimPrefix ''/add'' ''/add '' = ''/add''
   \<and> (\<not> awaiting w chatID \<longrightarrow>
         handleUpdateEvent e w (fromChat chatID ''/add'') = handleAdd e w chatID ''/add''
         \<and> (\<exists>rest. snd (handleUpdateEvent e w (fromChat chatID ''/add'')) =
                      HttpGet (SearchMulti ''/add'') # rest)
         \<and> SendMessage chatID AddUsage \<notin>
               set (snd (handleUpdateEvent e w (fromChat chatID ''/add''))))
   \<and> ((SendMessage chatID AddUsage \<in> set (snd (handleUpdateEvent e w (fromChat chatID text))))
         = (text = ''/add '' \<and> \<not> awaiting w chatID))"
proof -
  have p: "HasPrefix ''/add'' ''/add''" "TrimPrefix ''/add'' ''/add '' = ''/add''"
    by (simp_all add: HasPrefix_def TrimPrefix_def)
  have sw: "commandSwitch e w chatID ''/add'' = handleAdd e w chatID ''/add''"
    by (simp add: commandSwitch_def p)
  have a: "handleUpdateEvent e w (fromChat chatID ''/add'') = handleAdd e w chatID ''/add''"
    if "\<not> awaiting w chatID"
    using not_awaiting_dispatch[OF that] sw by simp
  have b: "(SendMessage chatID AddUsage \<in> set (snd (handleUpdateEvent e w (fromChat chatID text))))
         = (text = ''/add '' \<and> \<not> awaiting w chatID)"
  proof (cases "awaiting w chatID")
    case True
    then show ?thesis
      using awaiting_dispatch'[OF True, of e "text"] handleEpisodeInput_no_usage
      by auto
  next
    case False
    then show ?thesis
      by (simp add: not_awaiting_dispatch commandSwitch_usage)
  qed
  show ?thesis
    using p a b handleAdd_searches[of "''/add''" e w chatID] handleAdd_usage[of chatID e w "''/add''"]
    by simp
qed

theorem bare_add_is_searched_witness:
  "\<not> awaiting (initialWorld [] 0) 7
   \<and> handleUpdateEvent exEnv (initialWorld [] 0) (fromChat 7 ''/add'') =
       (initialWorld [] 0,
        [HttpGet (SearchMulti ''/add''), SendMessage 7 (NothingFound ''/add'')])
   \<and> handleUpdateEvent exEnv (initialWorld [] 0) (fromChat 7 ''/add '') =
       (initialWorld [] 0, [SendMessage 7 AddUsage])"
proof -
  have h: "\<not> awaiting (initialWorld [] 0) 7"
    by (simp add: awaiting_def initialWorld_def)
  have s: "searchTMDB exEnv ''/add'' = Inl NetworkError"
    by (simp add: searchTMDB_def exEnv_def exSearch_def)
  have "handleUpdateEvent exEnv (initialWorld [] 0) (fromChat 7 ''/add'') =
          handleAdd exEnv (initialWorld [] 0) 7 ''/add''"
    using bare_add_is_searched[of "initialWorld [] 0" 7 exEnv] h by blast
  moreover have "handleUpdateEvent exEnv (initialWorld [] 0) (fromChat 7 ''/add '') =
          handleAdd exEnv (initialWorld [] 0) 7 []"
    using h by (simp add: not_awaiting_dispatch commandSwitch_def HasPrefix_def TrimPrefix_def)
  ultimately show ?thesis
    using h s by (simp add: handleAdd_def)
qed

subsection \<open>\<open>/add\<close>: a movie is stored, a show is asked about\<close>

text \<open>
  Claim C4, as the code has it. A text \<open>/add\<close>, a space and a query, from a sender
  who is not awaiting, reaches \<open>handleAdd\<close> with that query. When the first match
  of the search has kind \<open>movie\<close>, the map of conversation states is left as it
  was, and the entry is appended to the table with current episode 0 provided
  the store accepts the insert; when the store refuses it, the save-error
  message is sent and the state is unchanged. When the first match has kind
  \<open>tv\<close>, the pending state of the sender is set (over any earlier one) to the
  awaiting state with the match's id, name and kind, the prompt is sent, and the
  table is left as it was.
\<close>

theorem add_branches_on_first_match:
  assumes "query \<noteq> []" and "searchTMDB e query = Inr results"
    and "Results results = r # rest"
  shows "(\<not> awaiting w chatID \<longrightarrow>
            handleUpdateEvent e w (fromChat chatID (''/add '' @ query)) =
              handleAdd e w chatID query)
         \<and> (MediaType r = ''movie'' \<longrightarrow>
              conversationStates (fst (handleAdd e w chatID query)) = conversationStates w
              \<and> (\<not> exec_fails e \<longrightarrow>
                    watched (fst (handleAdd e w chatID query)) =
                      watched w @
                        [\<lparr>row_id = Suc (watched_seq w), title = Title r,
                          media_type = ''movie'', tmdb_id = ID r, user_id = chatID,
                          watched_at = now e, current_episode = 0\<rparr>])
              \<and> (exec_fails e \<longrightarrow>
                    handleAdd e w chatID query =
                      (w, [HttpGet (SearchMulti query), SendMessage chatID SaveError])))
         \<and> (MediaType r = ''tv'' \<longrightarrow>
              handleAdd e w chatID query =
                (w\<lparr>conversationStates := (conversationStates w)
                     (chatID \<mapsto> \<lparr>AwaitingEpisode = True, TMDBID = ID r,
                                 ConversationState.Title = Name r,
                                 ConversationState.MediaType = ''tv''\<rparr>)\<rparr>,
                 [HttpGet (SearchMulti query), SendMessage chatID (AskEpisode (Name r))])
              \<and> watched (fst (handleAdd e w chatID query)) = watched w
              \<and> awaiting (fst (handleAdd e w chatID query)) chatID)"
proof (intro conjI impI)
  assume "\<not> awaiting w chatID"
  then show "handleUpdateEvent e w (fromChat chatID (''/add '' @ query)) =
               handleAdd e w chatID query"
    by (rule add_dispatch)
next
  assume "MediaType r = ''movie''"
  then show "conversationStates (fst (handleAdd e w chatID query)) = conversationStates w"
    using assms by (simp add: handleAdd_def Let_def dbInsert_def)
next
  assume "MediaType r = ''movie''" and "\<not> exec_fails e"
  then show "watched (fst (handleAdd e w chatID query)) =
               watched w @
                 [\<lparr>row_id = Suc (watched_seq w), title = Title r,
                   media_type = ''movie'', tmdb_id = ID r, user_id = chatID,
                   watched_at = now e, current_episode = 0\<rparr>]"
    using assms by (simp add: handleAdd_def Let_def dbInsert_def)
next
  assume "MediaType r = ''movie''" and "exec_fails e"
  then show "handleAdd e w chatID query =
               (w, [HttpGet (SearchMulti query), SendMessage chatID SaveError])"
    using assms by (simp add: handleAdd_def Let_def dbInsert_def)
next
  assume tv: "MediaType r = ''tv''"
  then show run: "handleAdd e w chatID query =
                (w\<lparr>conversationStates := (conversationStates w)
                     (chatID \<mapsto> \<lparr>AwaitingEpisode = True, TMDBID = ID r,
                                 ConversationState.Title = Name r,
                                 ConversationState.MediaType = ''tv''\<rparr>)\<rparr>,
                 [HttpGet (SearchMulti query), SendMessage chatID (AskEpisode (Name r))])"
    using assms by (simp add: handleAdd_def Let_def)
  show "watched (fst (handleAdd e w chatID query)) = watched w"
    by (simp add: run)
  show "awaiting (fst (handleAdd e w chatID query)) chatID"
    by (simp add: run awaiting_def)
qed

theorem add_branches_on_first_match_witness:
  "searchTMDB exEnv ''Inception'' = Inr \<lparr>Results = [exResult 27205 ''Inception'' ''movie'' 9]\<rparr>
   \<and> searchTMDB exEnv ''Breaking Bad'' =
         Inr \<lparr>Results = [exResult 1396 ''Breaking Bad'' ''tv'' 7]\<rparr>
   \<and> \<not> exec_fails exEnv
   \<and> conversationStates (fst (handleAdd exEnv (initialWorld [] 0) 7 ''Inception'')) = Map.empty
   \<and> watched (fst (handleAdd exEnv (initialWorld [] 0) 7 ''Inception'')) =
        [\<lparr>row_id = 1, title = ''Inception'', media_type = ''movie'', tmdb_id = 27205,
          user_id = 7, watched_at = 0, current_episode = 0\<rparr>]
   \<and> handleAdd exEnv (initialWorld [] 0) 7 ''Breaking Bad'' =
        (exAwaiting,
         [HttpGet (SearchMulti ''Breaking Bad''), SendMessage 7 (AskEpisode ''Breaking Bad'')])"
proof -
  have s1: "searchTMDB exEnv ''Inception'' =
              Inr \<lparr>Results = [exResult 27205 ''Inception'' ''movie'' 9]\<rparr>"
    and s2: "searchTMDB exEnv ''Breaking Bad'' =
              Inr \<lparr>Results = [exResult 1396 ''Breaking Bad'' ''tv'' 7]\<rparr>"
    by (simp_all add: searchTMDB_def exEnv_def exSearch_def)
  have nf: "\<not> exec_fails exEnv" by (simp add: exEnv_def)
  have m: "MediaType (exResult 27205 ''Inception'' ''movie'' 9) = ''movie''"
    and t: "MediaType (exResult 1396 ''Breaking Bad'' ''tv'' 7) = ''tv''"
    by (simp_all add: exResult_def)
  note a = add_branches_on_first_match[of "''Inception''" exEnv _ _ "[]" "initialWorld [] 0" 7, OF _ s1]
  note b = add_branches_on_first_match[of "''Breaking Bad''" exEnv _ _ "[]" "initialWorld [] 0" 7, OF _ s2]
  show ?thesis
    using a b s1 s2 nf m t
    by (simp add: initialWorld_def exAwaiting_def exState_def exResult_def exEnv_def)
qed

text \<open>
  The claim as stated promises the row for every \<open>/add\<close> of a movie. With a store
  that refuses the insert, the first match is a movie and the table stays empty.
\<close>

theorem add_movie_not_persisted_counterexample:
  "searchTMDB exFailing ''Inception'' =
     Inr \<lparr>Results = [exResult 27205 ''Inception'' ''movie'' 9]\<rparr>
   \<and> MediaType (exResult 27205 ''Inception'' ''movie'' 9) = ''movie''
   \<and> exec_fails exFailing
   \<and> handleUpdateEvent exFailing (initialWorld [] 0) (fromChat 7 ''/add Inception'') =
       (initialWorld [] 0, [HttpGet (SearchMulti ''Inception''), SendMessage 7 SaveError])
   \<and> watched (fst (handleUpdateEvent exFailing (initialWorld [] 0)
                     (fromChat 7 ''/add Inception''))) = []"
proof -
  have h: "\<not> awaiting (initialWorld [] 0) 7"
    by (simp add: awaiting_def initialWorld_def)
  have s: "searchTMDB exFailing ''Inception'' =
     Inr \<lparr>Results = [exResult 27205 ''Inception'' ''movie'' 9]\<rparr>"
    by (simp add: searchTMDB_def exFailing_def exEnv_def exSearch_def)
  have "handleUpdateEvent exFailing (initialWorld [] 0) (fromChat 7 ''/add Inception'') =
        handleAdd exFailing (initialWorld [] 0) 7 ''Inception''"
    using add_dispatch[OF h, of exFailing "''Inception''"] by simp
  then show ?thesis
    using s
    by (simp add: handleAdd_def Let_def dbInsert_def exFailing_def exResult_def
          initialWorld_def)
qed

subsection \<open>\<open>/update\<close>: not found, not a show, updated\<close>

lemma updateArgs_ex: "updateArgs ''Breaking Bad 7'' = Inr (''Breaking Bad'', 7)"
  by code_simp

lemma updateArgs_ex2: "updateArgs ''Heat 7'' = Inr (''Heat'', 7)"
  by code_simp

lemma find_Some_nth:
  "find P xs = Some r \<Longrightarrow> \<exists>i<length xs. xs ! i = r \<and> P r \<and> (\<forall>j<i. \<not> P (xs ! j))"
  by (auto simp: find_Some_iff)

text \<open>
  Claim C2, as the code has it. For a query from which \<open>handleUpdate\<close> reads a
  title and an episode number that is not negative: when no row of the sender has
  the title, or the store fails to answer the lookup, the not-found message is
  sent and the state is unchanged; when the first row found is not of kind \<open>tv\<close>,
  the wrong-kind message is sent and the state is unchanged; when it is of kind
  \<open>tv\<close> and the store refuses the update, the update-error message is sent and the
  state is unchanged; when the store accepts it, the current episode of the row
  found (and of every row of the sender with the same catalog id) becomes the
  given number.
\<close>

theorem update_outcomes:
  assumes "updateArgs query = Inr (ttl, episode)"
  shows "(find (\<lambda>r. user_id r = chatID \<and> title r = ttl) (watched w) = None \<longrightarrow>
            handleUpdate e w chatID query = (w, [SendMessage chatID UpdateNotFound]))
         \<and> (query_fails e \<longrightarrow>
            handleUpdate e w chatID query = (w, [SendMessage chatID UpdateNotFound]))
         \<and> (\<forall>r. find (\<lambda>r. user_id r = chatID \<and> title r = ttl) (watched w) = Some r
                 \<and> \<not> query_fails e \<and> media_type r \<noteq> ''tv'' \<longrightarrow>
               handleUpdate e w chatID query = (w, [SendMessage chatID UpdateNotShow]))
         \<and> (\<forall>r. find (\<lambda>r. user_id r = chatID \<and> title r = ttl) (watched w) = Some r
                 \<and> \<not> query_fails e \<and> media_type r = ''tv'' \<and> exec_fails e \<longrightarrow>
               handleUpdate e w chatID query = (w, [SendMessage chatID UpdateError]))
         \<and> (\<forall>r. find (\<lambda>r. user_id r = chatID \<and> title r = ttl) (watched w) = Some r
                 \<and> \<not> query_fails e \<and> media_type r = ''tv'' \<and> \<not> exec_fails e \<longrightarrow>
               handleUpdate e w chatID query =
                 (w\<lparr>watched :=
                      map (\<lambda>x. if user_id x = chatID \<and> tmdb_id x = tmdb_id r
                               then x\<lparr>current_episode := episode\<rparr> else x)
                          (watched w)\<rparr>,
                  [SendMessage chatID (Updated ttl episode)])
               \<and> (\<exists>i<length (watched w).
                     watched w ! i = r
                     \<and> watched (fst (handleUpdate e w chatID query)) ! i =
                         r\<lparr>current_episode := episode\<rparr>))"
proof (intro conjI allI impI)
  assume "find (\<lambda>r. user_id r = chatID \<and> title r = ttl) (watched w) = None"
  then show "handleUpdate e w chatID query = (w, [SendMessage chatID UpdateNotFound])"
    using assms by (simp add: handleUpdate_def dbSelectByTitle_def)
next
  assume "query_fails e"
  then show "handleUpdate e w chatID query = (w, [SendMessage chatID UpdateNotFound])"
    using assms by (simp add: handleUpdate_def dbSelectByTitle_def)
next
  fix r
  assume "find (\<lambda>r. user_id r = chatID \<and> title r = ttl) (watched w) = Some r
          \<and> \<not> query_fails e \<and> media_type r \<noteq> ''tv''"
  then show "handleUpdate e w chatID query = (w, [SendMessage chatID UpdateNotShow])"
    using assms by (simp add: handleUpdate_def dbSelectByTitle_def)
next
  fix r
  assume "find (\<lambda>r. user_id r = chatID \<and> title r = ttl) (watched w) = Some r
          \<and> \<not> query_fails e \<and> media_type r = ''tv'' \<and> exec_fails e"
  then show "handleUpdate e w chatID query = (w, [SendMessage chatID UpdateError])"
    using assms by (simp add: handleUpdate_def dbSelectByTitle_def dbUpdateEpisode_def)
next
  fix r
  assume a: "find (\<lambda>r. user_id r = chatID \<and> title r = ttl) (watched w) = Some r
          \<and> \<not> query_fails e \<and> media_type r = ''tv'' \<and> \<not> exec_fails e"
  then show run: "handleUpdate e w chatID query =
                 (w\<lparr>watched :=
                      map (\<lambda>x. if user_id x = chatID \<and> tmdb_id x = tmdb_id r
                               then x\<lparr>current_episode := episode\<rparr> else x)
                          (watched w)\<rparr>,
                  [SendMessage chatID (Updated ttl episode)])"
    using assms by (simp add: handleUpdate_def dbSelectByTitle_def dbUpdateEpisode_def)
  from a obtain i where i: "i < length (watched w)" "watched w ! i = r" "user_id r = chatID"
    using find_Some_nth[of "\<lambda>r. user_id r = chatID \<and> title r = ttl" "watched w" r] by auto
  then show "\<exists>i<length (watched w).
                     watched w ! i = r
                     \<and> watched (fst (handleUpdate e w chatID query)) ! i =
                         r\<lparr>current_episode := episode\<rparr>"
    by (intro exI[of _ i]) (simp add: run)
qed

theorem update_outcomes_witness:
  "updateArgs ''Breaking Bad 7'' = Inr (''Breaking Bad'', 7)
   \<and> updateArgs ''Heat 7'' = Inr (''Heat'', 7)
   \<and> handleUpdate exEnv exWatched 7 ''Heat 7'' = (exWatched, [SendMessage 7 UpdateNotFound])
   \<and> handleUpdate exEnv exWatched 7 ''Breaking Bad 7'' =
       (initialWorld
          [\<lparr>row_id = 1, title = ''Breaking Bad'', media_type = ''tv'', tmdb_id = 1396,
            user_id = 7, watched_at = 0, current_episode = 7\<rparr>] 1,
        [SendMessage 7 (Updated ''Breaking Bad'' 7)])"
proof -
  have f1: "find (\<lambda>r. user_id r = 7 \<and> title r = ''Heat'') (watched exWatched) = None"
    by (simp add: exWatched_def initialWorld_def)
  have f2: "find (\<lambda>r. user_id r = 7 \<and> title r = ''Breaking Bad'') (watched exWatched) =
      Some \<lparr>row_id = 1, title = ''Breaking Bad'', media_type = ''tv'', tmdb_id = 1396,
         user_id = 7, watched_at = 0, current_episode = 5\<rparr>"
    by (simp add: exWatched_def initialWorld_def)
  have ok: "\<not> query_fails exEnv" "\<not> exec_fails exEnv" by (simp_all add: exEnv_def)
  have "handleUpdate exEnv exWatched 7 ''Heat 7'' = (exWatched, [SendMessage 7 UpdateNotFound])"
    using update_outcomes[OF updateArgs_ex2, of 7 exWatched exEnv] f1 by blast
  moreover have "handleUpdate exEnv exWatched 7 ''Breaking Bad 7'' =
       (exWatched\<lparr>watched :=
           map (\<lambda>x. if user_id x = 7 \<and> tmdb_id x = 1396
                    then x\<lparr>current_episode := 7\<rparr> else x) (watched exWatched)\<rparr>,
        [SendMessage 7 (Updated ''Breaking Bad'' 7)])"
    using update_outcomes[OF updateArgs_ex, of 7 exWatched exEnv] f2 ok by simp
  ultimately show ?thesis
    using updateArgs_ex updateArgs_ex2 by (simp add: exWatched_def initialWorld_def)
qed

text \<open>
  The claim as stated promises the overwrite whenever a show matches. With a store
  that refuses the update, a show matches and its current episode stays 5.
\<close>

theorem update_store_failure_counterexample:
  "updateArgs ''Breaking Bad 7'' = Inr (''Breaking Bad'', 7)
   \<and> watched exWatched =
      [\<lparr>row_id = 1, title = ''Breaking Bad'', media_type = ''tv'', tmdb_id = 1396,
        user_id = 7, watched_at = 0, current_episode = 5\<rparr>]
   \<and> \<not> query_fails exFailing \<and> exec_fails exFailing
   \<and> handleUpdateEvent exFailing exWatched (fromChat 7 ''/update Breaking Bad 7'') =
       (exWatched, [SendMessage 7 UpdateError])
   \<and> map current_episode
        (watched (fst (handleUpdateEvent exFailing exWatched
                         (fromChat 7 ''/update Breaking Bad 7'')))) = [5]"
proof -
  have h: "\<not> awaiting exWatched 7"
    by (simp add: awaiting_def exWatched_def initialWorld_def)
  have d: "handleUpdateEvent exFailing exWatched (fromChat 7 ''/update Breaking Bad 7'') =
           handleUpdate exFailing exWatched 7 ''Breaking Bad 7''"
    using update_dispatch[OF h, of exFailing "''Breaking Bad 7''"] by simp
  have f2: "find (\<lambda>r. user_id r = 7 \<and> title r = ''Breaking Bad'') (watched exWatched) =
      Some \<lparr>row_id = 1, title = ''Breaking Bad'', media_type = ''tv'', tmdb_id = 1396,
         user_id = 7, watched_at = 0, current_episode = 5\<rparr>"
    by (simp add: exWatched_def initialWorld_def)
  have r: "handleUpdate exFailing exWatched 7 ''Breaking Bad 7'' =
             (exWatched, [SendMessage 7 UpdateError])"
    using f2
    by (simp add: handleUpdate_def updateArgs_ex dbSelectByTitle_def dbUpdateEpisode_def
          exFailing_def exEnv_def)
  show ?thesis
    using updateArgs_ex by (simp add: d r)
       (simp add: exWatched_def initialWorld_def exFailing_def exEnv_def)
qed

subsection \<open>Decoding a string that has been cut or extended\<close>









subsection \<open>\<open>limitString\<close>\<close>

lemma limitString_100: "\<exists>out. limitString s 100 = Inr out"
  by (simp add: limitString_def)




subsection \<open>What \<open>/update\<close> reads from its text\<close>













end
